theory Spec2Isabelle
  imports Main "HOL-Library.Sublist" "HOL-Library.Multiset"
begin

section \<open>Python values used by the calendar bot\<close>

text \<open>
  A Python \<open>str\<close> is a sequence of Unicode code points, so a string is a list of
  natural numbers (not of bytes): \<open>len\<close>, indexing, \<open>startswith\<close> and the regular
  expressions of the source all count code points.  ASCII literals are written with
  \<open>ascii\<close>; other literals are given as code point lists.
\<close>

type_synonym cp = nat
type_synonym pystr = "cp list"

definition ascii :: "string \<Rightarrow> pystr" where
  "ascii s = map of_char s"

text \<open>The exceptions that the modelled functions can raise.\<close>

datatype pyerr = ValueError | KeyError | ZoneInfoNotFoundError

section \<open>Dedupe gate: \<open>should_post\<close> and \<open>mark_posted\<close>\<close>

text \<open>
  The state is the dictionary loaded from \<open>state.json\<close>: a map from keys to Python
  values, which are \<open>None\<close>, a string, or (\<open>PyOther\<close>) a JSON value of another type,
  which no stamp equals.  \<open>state.get(key)\<close> is \<open>None\<close> for a key that is not stored.
\<close>

datatype pyval = PyNone | PyStr pystr | PyOther

type_synonym state = "pystr \<rightharpoonup> pyval"

definition dict_get :: "state \<Rightarrow> pystr \<Rightarrow> pyval" where
  "dict_get d k = (case d k of None \<Rightarrow> PyNone | Some v \<Rightarrow> v)"

definition should_post :: "state \<Rightarrow> pystr \<Rightarrow> pystr \<Rightarrow> bool" where
  "should_post st key stamp = (let last = dict_get st key in last \<noteq> PyStr stamp)"

definition mark_posted :: "state \<Rightarrow> pystr \<Rightarrow> pystr \<Rightarrow> state" where
  "mark_posted st key stamp = st(key \<mapsto> PyStr stamp)"

section \<open>String operations\<close>

text \<open>
  \<open>str.isspace\<close>: the code points that \<open>strip\<close>, \<open>lstrip\<close> and the class \<open>\s\<close> of
  a \<open>str\<close> pattern treat as whitespace.
\<close>

definition isspace :: "cp \<Rightarrow> bool" where
  "isspace c = ((9 \<le> c \<and> c \<le> 13) \<or> (28 \<le> c \<and> c \<le> 32) \<or> c = 133 \<or> c = 160
      \<or> c = 5760 \<or> (8192 \<le> c \<and> c \<le> 8202) \<or> c = 8232 \<or> c = 8233 \<or> c = 8239
      \<or> c = 8287 \<or> c = 12288)"

definition lstrip :: "pystr \<Rightarrow> pystr" where
  "lstrip s = dropWhile isspace s"

definition rstrip :: "pystr \<Rightarrow> pystr" where
  "rstrip s = rev (dropWhile isspace (rev s))"

definition strip :: "pystr \<Rightarrow> pystr" where
  "strip s = lstrip (rstrip s)"

text \<open>
  \<open>str.splitlines\<close>: the line boundaries are LF, VT, FF, CR, CR LF, FS, GS, RS, NEL, LS
  and PS; the boundaries are dropped and a text that ends in a boundary has no empty
  last line.
\<close>

definition is_linebreak :: "cp \<Rightarrow> bool" where
  "is_linebreak c = (c \<in> set [10, 11, 12, 13, 28, 29, 30, 133, 8232, 8233])"

fun splitlines_from :: "pystr \<Rightarrow> pystr \<Rightarrow> pystr list" where
  "splitlines_from cur [] = (if cur = [] then [] else [cur])"
| "splitlines_from cur (x # xs) =
     (if x = 13 then
        (case xs of
           [] \<Rightarrow> [cur]
         | y # ys \<Rightarrow> if y = 10 then cur # splitlines_from [] ys else cur # splitlines_from [] xs)
      else if is_linebreak x then cur # splitlines_from [] xs
      else splitlines_from (cur @ [x]) xs)"

definition splitlines :: "pystr \<Rightarrow> pystr list" where
  "splitlines s = splitlines_from [] s"

fun startswith :: "pystr \<Rightarrow> pystr \<Rightarrow> bool" where
  "startswith s [] = True"
| "startswith [] (p # ps) = False"
| "startswith (x # xs) (p # ps) = (x = p \<and> startswith xs ps)"

definition endswith :: "pystr \<Rightarrow> pystr \<Rightarrow> bool" where
  "endswith s suf = startswith (rev s) (rev suf)"

text \<open>\<open>k in s\<close> for strings: \<open>k\<close> occurs in \<open>s\<close> as a contiguous substring.\<close>

fun str_in :: "pystr \<Rightarrow> pystr \<Rightarrow> bool" where
  "str_in k [] = (k = [])"
| "str_in k (x # xs) = (startswith (x # xs) k \<or> str_in k xs)"

text \<open>
  \<open>s.split(sep)\<close> for a separator of one code point (every separator of the source is
  one), and \<open>s.split(sep, 1)\<close> as the pair the source unpacks after it has checked that
  the separator occurs.
\<close>

fun split_on :: "cp \<Rightarrow> pystr \<Rightarrow> pystr list" where
  "split_on c [] = [[]]"
| "split_on c (x # xs) =
     (if x = c then [] # split_on c xs
      else (case split_on c xs of [] \<Rightarrow> [[x]] | p # ps \<Rightarrow> (x # p) # ps))"

definition split_once :: "cp \<Rightarrow> pystr \<Rightarrow> pystr \<times> pystr" where
  "split_once c s = (takeWhile (\<lambda>x. x \<noteq> c) s, tl (dropWhile (\<lambda>x. x \<noteq> c) s))"

fun join :: "pystr \<Rightarrow> pystr list \<Rightarrow> pystr" where
  "join sep [] = []"
| "join sep [p] = p"
| "join sep (p # q # ps) = p @ sep @ join sep (q # ps)"

text \<open>
  \<open>s.replace(old, new)\<close>: the occurrences of \<open>old\<close> are replaced from the left and do
  not overlap; an empty \<open>old\<close> puts \<open>new\<close> before every code point and at the end.
\<close>

fun replace_from :: "pystr \<Rightarrow> pystr \<Rightarrow> pystr \<Rightarrow> pystr" where
  "replace_from old new [] = []"
| "replace_from old new (x # xs) =
     (if startswith (x # xs) old then new @ replace_from old new (drop (length old - 1) xs)
      else x # replace_from old new xs)"

definition replace :: "pystr \<Rightarrow> pystr \<Rightarrow> pystr \<Rightarrow> pystr" where
  "replace s old new =
     (if old = [] then new @ concat (map (\<lambda>x. x # new) s) else replace_from old new s)"

section \<open>The Unicode tables of the interpreter\<close>

text \<open>
  Case mapping and the digit class are tables of the Python interpreter, not code of the
  program, so they are parameters of the model: \<open>str_lower\<close> and \<open>str_upper\<close> are
  \<open>str.lower\<close> and \<open>str.upper\<close>, \<open>isdecimal\<close> is the class \<open>\d\<close> of a \<open>str\<close> pattern,
  and \<open>casevariants x\<close> lists the pattern characters that the text character \<open>x\<close> matches
  under \<open>re.IGNORECASE\<close> besides \<open>x\<close> itself.
\<close>

record unicode =
  str_lower :: "pystr \<Rightarrow> pystr"
  str_upper :: "pystr \<Rightarrow> pystr"
  isdecimal :: "cp \<Rightarrow> bool"
  casevariants :: "cp \<Rightarrow> cp list"

section \<open>Regular expressions\<close>

text \<open>
  The patterns of the source are written as data and matched as the backtracking engine
  of \<open>re\<close> matches them.  \<open>matches\<close> returns the configurations (position reached, text
  of group 1) in the order in which the engine tries them: a greedy quantifier tries the
  longest repetition first, an alternation its left branch first.  The first entry is
  the match that \<open>re\<close> reports.  Quantifiers apply to single-character atoms, which is
  all the source's patterns need.
\<close>

datatype citem = Ch cp | Range cp cp

datatype atom = Lit cp | Dot | Digit | Space | Class "citem list" | NotClass "citem list"

datatype re =
    Eps
  | Atom atom
  | Opt atom
  | Star atom
  | Plus atom
  | Times nat atom
  | Seq re re
  | Alt re re
  | Group re
  | Bol
  | Eol

fun lit_ok :: "unicode \<Rightarrow> bool \<Rightarrow> cp \<Rightarrow> cp \<Rightarrow> bool" where
  "lit_ok U ic c x = (x = c \<or> (ic \<and> c \<in> set (casevariants U x)))"

fun citem_ok :: "unicode \<Rightarrow> bool \<Rightarrow> citem \<Rightarrow> cp \<Rightarrow> bool" where
  "citem_ok U ic (Ch c) x = lit_ok U ic c x"
| "citem_ok U ic (Range lo hi) x =
     ((lo \<le> x \<and> x \<le> hi) \<or> (ic \<and> list_ex (\<lambda>v. lo \<le> v \<and> v \<le> hi) (casevariants U x)))"

fun atom_ok :: "unicode \<Rightarrow> bool \<Rightarrow> atom \<Rightarrow> cp \<Rightarrow> bool" where
  "atom_ok U ic (Lit c) x = lit_ok U ic c x"
| "atom_ok U ic Dot x = (x \<noteq> 10)"
| "atom_ok U ic Digit x = isdecimal U x"
| "atom_ok U ic Space x = isspace x"
| "atom_ok U ic (Class items) x = list_ex (\<lambda>i. citem_ok U ic i x) items"
| "atom_ok U ic (NotClass items) x = (\<not> list_ex (\<lambda>i. citem_ok U ic i x) items)"

type_synonym cfg = "nat \<times> pystr option"

definition run_length :: "unicode \<Rightarrow> bool \<Rightarrow> atom \<Rightarrow> pystr \<Rightarrow> nat \<Rightarrow> nat" where
  "run_length U ic a text p = length (takeWhile (atom_ok U ic a) (drop p text))"

fun matches :: "unicode \<Rightarrow> bool \<Rightarrow> pystr \<Rightarrow> re \<Rightarrow> cfg \<Rightarrow> cfg list" where
  "matches U ic text Eps c = [c]"
| "matches U ic text (Atom a) c = (if 1 \<le> run_length U ic a text (fst c) then [(fst c + 1, snd c)] else [])"
| "matches U ic text (Opt a) c =
     (if 1 \<le> run_length U ic a text (fst c) then [(fst c + 1, snd c), c] else [c])"
| "matches U ic text (Star a) c =
     map (\<lambda>k. (fst c + k, snd c)) (rev [0..<Suc (run_length U ic a text (fst c))])"
| "matches U ic text (Plus a) c =
     map (\<lambda>k. (fst c + k, snd c)) (rev [1..<Suc (run_length U ic a text (fst c))])"
| "matches U ic text (Times n a) c =
     (if n \<le> run_length U ic a text (fst c) then [(fst c + n, snd c)] else [])"
| "matches U ic text (Seq r1 r2) c = concat (map (matches U ic text r2) (matches U ic text r1 c))"
| "matches U ic text (Alt r1 r2) c = matches U ic text r1 c @ matches U ic text r2 c"
| "matches U ic text (Group r) c =
     map (\<lambda>c'. (fst c', Some (take (fst c' - fst c) (drop (fst c) text)))) (matches U ic text r c)"
| "matches U ic text Bol c = (if fst c = 0 then [c] else [])"
| "matches U ic text Eol c =
     (if fst c = length text \<or> (Suc (fst c) = length text \<and> text ! fst c = 10) then [c] else [])"

text \<open>A literal string in a pattern.\<close>

fun lits :: "pystr \<Rightarrow> re" where
  "lits [] = Eps"
| "lits (c # cs) = Seq (Atom (Lit c)) (lits cs)"

text \<open>
  \<open>re_match_at\<close>: the match that starts at a position, if any, as (end, group 1).
  \<open>re_match\<close> is \<open>re.match\<close>, \<open>re_fullmatch\<close> is \<open>re.fullmatch\<close> (the first configuration
  that ends at the end of the text), \<open>re_search\<close> is \<open>re.search\<close> (the leftmost start
  that has a match, as (start, end, group 1)), and \<open>re_findall\<close> is \<open>findall\<close> for a pattern
  without groups: the matched texts from left to right, without overlap.
\<close>

definition re_match_at :: "unicode \<Rightarrow> bool \<Rightarrow> re \<Rightarrow> pystr \<Rightarrow> nat \<Rightarrow> cfg option" where
  "re_match_at U ic r text p = (case matches U ic text r (p, None) of [] \<Rightarrow> None | c # _ \<Rightarrow> Some c)"

definition re_match :: "unicode \<Rightarrow> bool \<Rightarrow> re \<Rightarrow> pystr \<Rightarrow> cfg option" where
  "re_match U ic r text = re_match_at U ic r text 0"

definition re_fullmatch :: "unicode \<Rightarrow> bool \<Rightarrow> re \<Rightarrow> pystr \<Rightarrow> cfg option" where
  "re_fullmatch U ic r text = find (\<lambda>c. fst c = length text) (matches U ic text r (0, None))"

fun search_from :: "unicode \<Rightarrow> bool \<Rightarrow> re \<Rightarrow> pystr \<Rightarrow> nat list \<Rightarrow> (nat \<times> cfg) option" where
  "search_from U ic r text [] = None"
| "search_from U ic r text (p # ps) =
     (case re_match_at U ic r text p of
        Some c \<Rightarrow> Some (p, c)
      | None \<Rightarrow> search_from U ic r text ps)"

definition re_search :: "unicode \<Rightarrow> bool \<Rightarrow> re \<Rightarrow> pystr \<Rightarrow> (nat \<times> cfg) option" where
  "re_search U ic r text = search_from U ic r text [0..<Suc (length text)]"

function re_findall_from :: "unicode \<Rightarrow> bool \<Rightarrow> re \<Rightarrow> pystr \<Rightarrow> nat \<Rightarrow> pystr list" where
  "re_findall_from U ic r text p =
     (if length text < p then []
      else (case re_match_at U ic r text p of
              None \<Rightarrow> re_findall_from U ic r text (Suc p)
            | Some c \<Rightarrow>
                take (fst c - p) (drop p text)
                  # re_findall_from U ic r text (if p < fst c then fst c else Suc p)))"
  by pat_completeness auto
termination
  by (relation "measure (\<lambda>(U, ic, r, text, p). Suc (length text) - p)") auto

definition re_findall :: "unicode \<Rightarrow> bool \<Rightarrow> re \<Rightarrow> pystr \<Rightarrow> pystr list" where
  "re_findall U ic r text = re_findall_from U ic r text 0"

text \<open>The text of group 1 of a match, as \<open>m.group(1)\<close> of a match in which it took part.\<close>

definition group1 :: "cfg \<Rightarrow> pystr" where
  "group1 c = (case snd c of None \<Rightarrow> [] | Some g \<Rightarrow> g)"

section \<open>Folded-line reassembler: \<open>_unfold_ics_lines\<close>\<close>

text \<open>
  \<open>unfold_step\<close> is the body of the loop over the physical lines, with the list
  \<open>out\<close> passed through; \<open>out[-1] += line[1:]\<close> changes the last entry.
\<close>

definition unfold_step :: "pystr list \<Rightarrow> pystr \<Rightarrow> pystr list" where
  "unfold_step out line =
     (if line = [] then out @ [line]
      else if startswith line (ascii '' '') \<or> startswith line [9] then
        (if out \<noteq> [] then butlast out @ [last out @ drop 1 line]
         else out @ [lstrip line])
      else out @ [line])"

definition unfold_lines :: "pystr list \<Rightarrow> pystr list" where
  "unfold_lines raw = foldl unfold_step [] raw"

definition unfold_ics_lines :: "pystr \<Rightarrow> pystr list" where
  "unfold_ics_lines ics_text = unfold_lines (splitlines ics_text)"

text \<open>
  The reassembly as the specification words it, to be compared with the loop: a
  continuation line is a physical line that starts with a space or a tab; it is appended,
  without its first character, to the logical line before it; any other line starts a
  new logical line; a continuation line at the very start stands for itself, with its
  leading whitespace stripped.
\<close>

definition is_continuation :: "pystr \<Rightarrow> bool" where
  "is_continuation l = (case l of [] \<Rightarrow> False | c # _ \<Rightarrow> c = 32 \<or> c = 9)"

fun join_continuations :: "pystr \<Rightarrow> pystr list \<Rightarrow> pystr list" where
  "join_continuations cur [] = [cur]"
| "join_continuations cur (l # ls) =
     (if is_continuation l then join_continuations (cur @ tl l) ls
      else cur # join_continuations l ls)"

definition logical_lines :: "pystr list \<Rightarrow> pystr list" where
  "logical_lines ls =
     (case ls of
        [] \<Rightarrow> []
      | l # rest \<Rightarrow> join_continuations (if is_continuation l then lstrip l else l) rest)"

section \<open>The datetime library\<close>

text \<open>
  \<open>datetime\<close> and \<open>zoneinfo\<close> are libraries, so their operations are parameters of the
  model.  \<open>'n\<close> is a naive \<open>datetime\<close>, \<open>'z\<close> a \<open>tzinfo\<close> and \<open>'t\<close> an aware
  \<open>datetime\<close>.  A \<open>date\<close> is its proleptic Gregorian ordinal (\<open>date.toordinal()\<close>), so
  that adding a \<open>timedelta\<close> of days, the difference in days and the comparison of dates
  are integer arithmetic.  \<open>strptime\<close> and \<open>ZoneInfo\<close> can raise.
  \<open>datetime_at d z\<close> is \<open>datetime(d.year, d.month, d.day, 0, 0, tzinfo=z)\<close>,
  \<open>replace_tzinfo n z\<close> is \<open>n.replace(tzinfo=z)\<close>, \<open>date_of_aware t\<close> is \<open>t.date()\<close>,
  \<open>KYIV_TZ\<close> is the module constant of the source.
\<close>

type_synonym date = int

record ('n, 'z, 't) dtlib =
  strptime :: "pystr \<Rightarrow> pystr \<Rightarrow> pyerr + 'n"
  date_of :: "'n \<Rightarrow> date"
  datetime_at :: "date \<Rightarrow> 'z \<Rightarrow> 't"
  ZoneInfo :: "pystr \<Rightarrow> pyerr + 'z"
  KYIV_TZ :: "'z"
  utc :: "'z"
  replace_tzinfo :: "'n \<Rightarrow> 'z \<Rightarrow> 't"
  astimezone :: "'t \<Rightarrow> 'z \<Rightarrow> 't"
  date_of_aware :: "'t \<Rightarrow> date"
  strftime :: "'t \<Rightarrow> pystr \<Rightarrow> pystr"
  date_strftime :: "date \<Rightarrow> pystr \<Rightarrow> pystr"

section \<open>Temporal normalizer: \<open>_parse_dt\<close>\<close>

text \<open>
  \<open>tzinfo_or_kyiv\<close> is the expression \<open>ZoneInfo(tzid) if tzid else KYIV_TZ\<close>: an
  absent and an empty \<open>tzid\<close> are both false.  In \<open>parse_dt\<close> every call that can
  raise is a case distinction, in the order in which the source evaluates the calls.
\<close>

definition tzinfo_or_kyiv :: "('n, 'z, 't) dtlib \<Rightarrow> pystr option \<Rightarrow> pyerr + 'z" where
  "tzinfo_or_kyiv D tzid =
     (case tzid of
        None \<Rightarrow> Inr (KYIV_TZ D)
      | Some z \<Rightarrow> if z \<noteq> [] then ZoneInfo D z else Inr (KYIV_TZ D))"

definition parse_dt :: "unicode \<Rightarrow> ('n, 'z, 't) dtlib \<Rightarrow> pystr \<Rightarrow> pystr option \<Rightarrow> pyerr + 't" where
  "parse_dt U D val0 tzid =
     (let val = strip val0 in
      if re_fullmatch U False (Times 8 Digit) val \<noteq> None then
        (case strptime D val (ascii ''%Y%m%d'') of
           Inl e \<Rightarrow> Inl e
         | Inr n \<Rightarrow>
             (let d = date_of D n in
              case tzinfo_or_kyiv D tzid of
                Inl e \<Rightarrow> Inl e
              | Inr z \<Rightarrow> Inr (datetime_at D d z)))
      else if endswith val (ascii ''Z'') then
        (case strptime D val (ascii ''%Y%m%dT%H%M%SZ'') of
           Inl e \<Rightarrow> Inl e
         | Inr n \<Rightarrow> Inr (astimezone D (replace_tzinfo D n (utc D)) (KYIV_TZ D)))
      else
        (case strptime D val (ascii ''%Y%m%dT%H%M%S'') of
           Inl e \<Rightarrow> Inl e
         | Inr naive \<Rightarrow>
             (case tzinfo_or_kyiv D tzid of
                Inl e \<Rightarrow> Inl e
              | Inr tz \<Rightarrow> Inr (astimezone D (replace_tzinfo D naive tz) (KYIV_TZ D)))))"

text \<open>
  The three shapes in the words of the specification: a date-only token is eight
  digits; \<open>dt_format\<close> is the format that the shape of a token selects.
\<close>

definition is_date_only :: "unicode \<Rightarrow> pystr \<Rightarrow> bool" where
  "is_date_only U v = (length v = 8 \<and> list_all (isdecimal U) v)"

definition dt_format :: "unicode \<Rightarrow> pystr \<Rightarrow> pystr" where
  "dt_format U v =
     (if is_date_only U v then ascii ''%Y%m%d''
      else if endswith v (ascii ''Z'') then ascii ''%Y%m%dT%H%M%SZ''
      else ascii ''%Y%m%dT%H%M%S'')"

section \<open>Event block parser: \<open>parse_ics_events\<close>\<close>

record 't Event =
  start :: "'t"
  end' :: "'t"
  summary :: pystr
  description :: pystr
  location :: pystr

text \<open>
  The accumulator \<open>cur\<close> is a dictionary from keys to pairs (zone identifier, value); it
  is an association list in insertion order.  \<open>cur_get\<close> is \<open>cur.get(k, (None, ""))\<close>.
\<close>

type_synonym fields = "(pystr \<times> (pystr option \<times> pystr)) list"

definition cur_get :: "fields \<Rightarrow> pystr \<Rightarrow> pystr option \<times> pystr" where
  "cur_get c k = (case map_of c k of None \<Rightarrow> (None, []) | Some v \<Rightarrow> v)"

fun cur_set :: "fields \<Rightarrow> pystr \<Rightarrow> pystr option \<times> pystr \<Rightarrow> fields" where
  "cur_set [] k v = [(k, v)]"
| "cur_set ((k', v') # c) k v = (if k' = k then (k, v) # c else (k', v') # cur_set c k v)"

text \<open>
  \<open>flush\<close> is the nested function of the source; the two variables it changes, \<open>cur\<close>
  and \<open>events\<close>, are passed in and returned.  An error of \<open>_parse_dt\<close> leaves it.
\<close>

definition flush ::
  "unicode \<Rightarrow> ('n, 'z, 't) dtlib \<Rightarrow> fields \<Rightarrow> 't Event list \<Rightarrow> pyerr + (fields \<times> 't Event list)" where
  "flush U D c evs =
     (if c = [] then Inr (c, evs)
      else
        (let (dtstart_tz, dtstart_val) = cur_get c (ascii ''DTSTART'');
             (dtend_tz, dtend_val) = cur_get c (ascii ''DTEND'');
             summ = snd (cur_get c (ascii ''SUMMARY''));
             descr = snd (cur_get c (ascii ''DESCRIPTION''));
             loc = snd (cur_get c (ascii ''LOCATION''))
         in if dtstart_val = [] \<or> dtend_val = [] then Inr ([], evs)
            else
              (case parse_dt U D dtstart_val dtstart_tz of
                 Inl e \<Rightarrow> Inl e
               | Inr s \<Rightarrow>
                   (case parse_dt U D dtend_val dtend_tz of
                      Inl e \<Rightarrow> Inl e
                    | Inr en \<Rightarrow>
                        Inr ([], evs @ [\<lparr>start = s, end' = en, summary = strip summ,
                                         description = strip descr, location = strip loc\<rparr>])))))"

text \<open>The pattern \<open>TZID=([^;]+)\<close>.\<close>

definition TZID_RE :: re where
  "TZID_RE = Seq (lits (ascii ''TZID='')) (Group (Plus (NotClass [Ch 59])))"

text \<open>
  \<open>add_field\<close> is the part of the loop body that reads a line \<open>key(;params)?:value\<close>
  inside a block, after the test that the line has a colon.
\<close>

definition field_keys :: "pystr list" where
  "field_keys = [ascii ''DTSTART'', ascii ''DTEND'', ascii ''SUMMARY'', ascii ''DESCRIPTION'',
                 ascii ''LOCATION'']"

definition add_field :: "unicode \<Rightarrow> fields \<Rightarrow> pystr \<Rightarrow> fields" where
  "add_field U c line =
     (let (left, val) = split_once 58 line;
          (key, tzid) =
            (if 59 \<in> set left then
               (let (key, params) = split_once 59 left
                in (key, case re_search U False TZID_RE params of
                           None \<Rightarrow> None
                         | Some m \<Rightarrow> Some (group1 (snd m))))
             else (left, None));
          key = str_upper U (strip key);
          val = strip val
      in if key \<in> set field_keys then cur_set c key (tzid, val) else c)"

record 't pstate =
  in_event :: bool
  cur :: fields
  events :: "'t Event list"

definition parse_line ::
  "unicode \<Rightarrow> ('n, 'z, 't) dtlib \<Rightarrow> 't pstate \<Rightarrow> pystr \<Rightarrow> pyerr + 't pstate" where
  "parse_line U D st line =
     (if line = ascii ''BEGIN:VEVENT'' then Inr (st\<lparr>in_event := True, cur := []\<rparr>)
      else if line = ascii ''END:VEVENT'' then
        (if in_event st then
           (case flush U D (cur st) (events st) of
              Inl e \<Rightarrow> Inl e
            | Inr (c, evs) \<Rightarrow> Inr (st\<lparr>in_event := False, cur := c, events := evs\<rparr>))
         else Inr (st\<lparr>in_event := False\<rparr>))
      else if \<not> in_event st then Inr st
      else if 58 \<notin> set line then Inr st
      else Inr (st\<lparr>cur := add_field U (cur st) line\<rparr>))"

fun parse_lines ::
  "unicode \<Rightarrow> ('n, 'z, 't) dtlib \<Rightarrow> 't pstate \<Rightarrow> pystr list \<Rightarrow> pyerr + 't pstate" where
  "parse_lines U D st [] = Inr st"
| "parse_lines U D st (line # ls) =
     (case parse_line U D st line of
        Inl e \<Rightarrow> Inl e
      | Inr st' \<Rightarrow> parse_lines U D st' ls)"

definition pstate0 :: "'t pstate" where
  "pstate0 = \<lparr>in_event = False, cur = [], events = []\<rparr>"

text \<open>
  \<open>events.sort(key=lambda e: e.start)\<close> is a stable sort by the key; \<open>sort_key\<close> is
  one.  The comparison of aware datetimes is the library's; it is taken to be a linear
  order on \<open>'t\<close>.
\<close>

definition parse_ics_events ::
  "unicode \<Rightarrow> ('n, 'z, 't::linorder) dtlib \<Rightarrow> pystr \<Rightarrow> pyerr + 't Event list" where
  "parse_ics_events U D ics_text =
     (case parse_lines U D pstate0 (unfold_ics_lines ics_text) of
        Inl e \<Rightarrow> Inl e
      | Inr st \<Rightarrow> Inr (sort_key start (events st)))"



text \<open>
  Names for what the claims about the parser speak of: the lines of a block with a
  given body, the fields that the loop accumulates over the body of a block, and the
  test of \<open>flush\<close> that a start or an end value is missing.
\<close>

definition block_lines :: "pystr list \<Rightarrow> pystr list" where
  "block_lines body = ascii ''BEGIN:VEVENT'' # body @ [ascii ''END:VEVENT'']"

definition block_fields :: "unicode \<Rightarrow> pystr list \<Rightarrow> fields" where
  "block_fields U body = foldl (\<lambda>c l. if 58 \<in> set l then add_field U c l else c) [] body"

definition lacks_start_or_end :: "fields \<Rightarrow> bool" where
  "lacks_start_or_end c =
     (snd (cur_get c (ascii ''DTSTART'')) = [] \<or> snd (cur_get c (ascii ''DTEND'')) = [])"

definition block_event :: "fields \<Rightarrow> 't \<Rightarrow> 't \<Rightarrow> 't Event" where
  "block_event c s e =
     \<lparr>start = s, end' = e,
      summary = strip (snd (cur_get c (ascii ''SUMMARY''))),
      description = strip (snd (cur_get c (ascii ''DESCRIPTION''))),
      location = strip (snd (cur_get c (ascii ''LOCATION'')))\<rparr>"

section \<open>Semantic extractors\<close>

text \<open>
  String literals of the source outside ASCII are given by their code points.  The keys
  of \<open>TYPE_WORDS\<close> are the Ukrainian stems for lecture, practical, laboratory and seminar;
  the values are the labels shown to the reader.
\<close>

definition stem_lecture :: pystr where
  "stem_lecture =
     [1083, 1077, 1082, 1094, 1110, 1103]"

definition label_lecture :: pystr where
  "label_lecture =
     [1051, 1077, 1082, 1094, 1110, 1103]"

definition stem_practical :: pystr where
  "stem_practical =
     [1087, 1088, 1072, 1082, 1090, 1080, 1095]"

definition label_practical :: pystr where
  "label_practical =
     [1055, 1088, 1072, 1082, 1090, 1080, 1095, 1085, 1077]"

definition stem_laboratory :: pystr where
  "stem_laboratory =
     [1083, 1072, 1073]"

definition label_laboratory :: pystr where
  "label_laboratory =
     [1051, 1072, 1073, 1086, 1088, 1072, 1090, 1086, 1088, 1085, 1072]"

definition stem_seminar :: pystr where
  "stem_seminar =
     [1089, 1077, 1084, 1110, 1085, 1072, 1088]"

definition label_seminar :: pystr where
  "label_seminar =
     [1057, 1077, 1084, 1110, 1085, 1072, 1088]"

definition TYPE_WORDS :: "(pystr \<times> pystr) list" where
  "TYPE_WORDS =
     [(stem_lecture, label_lecture), (stem_practical, label_practical),
      (stem_laboratory, label_laboratory), (stem_seminar, label_seminar)]"

text \<open>
  The loop \<open>for k, v in TYPE_WORDS.items(): if k in tail: return ...\<close>: the label of the
  first stem, in the order of the dictionary, that occurs in the tail.
\<close>

fun find_type_word :: "(pystr \<times> pystr) list \<Rightarrow> pystr \<Rightarrow> pystr option" where
  "find_type_word [] tail = None"
| "find_type_word ((k, v) # kvs) tail = (if str_in k tail then Some v else find_type_word kvs tail)"

text \<open>\<open>split_summary\<close>; 8212 is the em-dash and 45 the hyphen.\<close>

definition split_summary :: "unicode \<Rightarrow> pystr \<Rightarrow> pystr \<times> pystr option" where
  "split_summary U summ =
     (let s = strip summ;
          parts = map strip (split_on 8212 s)
      in case (if 2 \<le> length parts then find_type_word TYPE_WORDS (str_lower U (last parts))
               else None) of
           Some v \<Rightarrow> (strip (join [8212] (butlast parts)), Some v)
         | None \<Rightarrow>
             (let parts2 = map strip (split_on 45 s)
              in case (if 2 \<le> length parts2
                       then find_type_word TYPE_WORDS (str_lower U (last parts2))
                       else None) of
                   Some v \<Rightarrow> (strip (join [45] (butlast parts2)), Some v)
                 | None \<Rightarrow> (s, None)))"

text \<open>
  The procedure for one separator as the specification words it, to be compared with
  \<open>split_summary\<close>: split at the separator; if the separator occurs and the lowercased
  last part contains a stem, the result is the left parts rejoined by the separator and
  the label of the stem.  Parts and results are trimmed, as in the source.
\<close>

definition split_at_sep :: "unicode \<Rightarrow> cp \<Rightarrow> pystr \<Rightarrow> (pystr \<times> pystr option) option" where
  "split_at_sep U sep s =
     (if sep \<in> set s then
        (case find_type_word TYPE_WORDS (str_lower U (strip (last (split_on sep s)))) of
           None \<Rightarrow> None
         | Some v \<Rightarrow> Some (strip (join [sep] (map strip (butlast (split_on sep s)))), Some v))
      else None)"

text \<open>
  \<open>_normalize_for_links\<close>: the two characters backslash and \<open>n\<close> become a line feed,
  and U+200B (zero width space) is removed.
\<close>

definition normalize_for_links :: "pystr \<Rightarrow> pystr" where
  "normalize_for_links t0 =
     (if t0 = [] then []
      else (let t = replace t0 [92, 110] [10];
                t = replace t [8203] []
            in t))"

text \<open>
  \<open>URL_RE\<close>, compiled with \<open>re.IGNORECASE\<close>: \<open>https?://\<close> and then one or more of
  \<open>A-Z a-z 0-9 - . _ ~ : / ? # [ ] @ ! $ & ' ( ) * + , ; = %\<close>.
\<close>

definition url_chars :: "citem list" where
  "url_chars =
     [Range 65 90, Range 97 122, Range 48 57, Ch 45, Ch 46, Ch 95, Ch 126, Ch 58, Ch 47, Ch 63,
      Ch 35, Ch 91, Ch 93, Ch 64, Ch 33, Ch 36, Ch 38, Ch 39, Ch 40, Ch 41, Ch 42, Ch 43, Ch 44,
      Ch 59, Ch 61, Ch 37]"

definition URL_RE :: re where
  "URL_RE = Seq (lits (ascii ''http'')) (Seq (Opt (Lit 115)) (Seq (lits (ascii ''://''))
              (Plus (Class url_chars))))"

definition extract_zoom_links :: "unicode \<Rightarrow> pystr \<Rightarrow> pystr list" where
  "extract_zoom_links U t0 =
     (let t = normalize_for_links t0;
          links = re_findall U True URL_RE t;
          zoom = filter (\<lambda>l. str_in (ascii ''zoom.us'') (str_lower U l)) links;
          rest = filter (\<lambda>l. l \<notin> set zoom) links
      in zoom @ rest)"

text \<open>
  The strict character set of the claim about links: a code point that the class of
  \<open>URL_RE\<close> lists, without regard to the flag.
\<close>

definition is_url_char :: "cp \<Rightarrow> bool" where
  "is_url_char x =
     ((65 \<le> x \<and> x \<le> 90) \<or> (97 \<le> x \<and> x \<le> 122) \<or> (48 \<le> x \<and> x \<le> 57)
      \<or> x \<in> set [45, 46, 95, 126, 58, 47, 63, 35, 91, 93, 64, 33, 36, 38, 39, 40, 41, 42, 43, 44,
                    59, 61, 37])"

text \<open>
  The patterns of \<open>extract_teacher\<close> all have the form
  \<open>^(?:abbr\.?|full)\s*[:\-]?\s*(.+)$\<close>; \<open>role_pattern abbr full\<close> is that pattern.
  The seven patterns of the source are for docent, lecturer, professor and assistant in
  lower case and for the first three again with a capital letter.
\<close>

definition role_pattern :: "pystr \<Rightarrow> pystr \<Rightarrow> re" where
  "role_pattern abbr full =
     Seq Bol (Seq (Alt (Seq (lits abbr) (Opt (Lit 46))) (lits full))
       (Seq (Star Space) (Seq (Opt (Class [Ch 58, Ch 45]))
         (Seq (Star Space) (Seq (Group (Plus Dot)) Eol)))))"

definition teacher_patterns :: "re list" where
  "teacher_patterns =
     [role_pattern
        [1076, 1086, 1094]
        [1076, 1086, 1094, 1077, 1085, 1090],
      role_pattern
        [1074, 1080, 1082, 1083]
        [1074, 1080, 1082, 1083, 1072, 1076, 1072, 1095],
      role_pattern
        [1087, 1088, 1086, 1092]
        [1087, 1088, 1086, 1092, 1077, 1089, 1086, 1088],
      role_pattern
        [1072, 1089, 1080, 1089, 1090]
        [1072, 1089, 1080, 1089, 1090, 1077, 1085, 1090],
      role_pattern
        [1044, 1086, 1094]
        [1044, 1086, 1094, 1077, 1085, 1090],
      role_pattern
        [1042, 1080, 1082, 1083]
        [1042, 1080, 1082, 1083, 1072, 1076, 1072, 1095],
      role_pattern
        [1055, 1088, 1086, 1092]
        [1055, 1088, 1086, 1092, 1077, 1089, 1086, 1088]]"

text \<open>
  The two loops of \<open>extract_teacher\<close>: over the patterns for one line, and over the
  lines.  The first match returns.
\<close>

fun first_pattern_match :: "unicode \<Rightarrow> re list \<Rightarrow> pystr \<Rightarrow> pystr option" where
  "first_pattern_match U [] line = None"
| "first_pattern_match U (pat # pats) line =
     (case re_match U True pat line of
        Some m \<Rightarrow> Some (strip (group1 m))
      | None \<Rightarrow> first_pattern_match U pats line)"

fun first_line_match :: "unicode \<Rightarrow> re list \<Rightarrow> pystr list \<Rightarrow> pystr option" where
  "first_line_match U pats [] = None"
| "first_line_match U pats (line # ls) =
     (case first_pattern_match U pats line of
        Some r \<Rightarrow> Some r
      | None \<Rightarrow> first_line_match U pats ls)"

definition teacher_lines :: "pystr \<Rightarrow> pystr list" where
  "teacher_lines descr =
     map strip (filter (\<lambda>l. strip l \<noteq> []) (splitlines (replace descr [92, 110] [10])))"

definition extract_teacher :: "unicode \<Rightarrow> pystr \<Rightarrow> pystr option" where
  "extract_teacher U descr =
     (if descr = [] then None
      else first_line_match U teacher_patterns (teacher_lines descr))"

text \<open>
  Teacher detection as the specification words it, with the zero-width characters
  normalized out of the description as well.
\<close>

definition extract_teacher_spec :: "unicode \<Rightarrow> pystr \<Rightarrow> pystr option" where
  "extract_teacher_spec U descr =
     (if descr = [] then None
      else first_line_match U teacher_patterns (teacher_lines (replace descr [8203] [])))"

text \<open>
  \<open>extract_passcode\<close>: the pattern is an alternation of four phrases (access code in
  Ukrainian and in Russian, \<open>Passcode\<close>, password in Ukrainian), an optional colon or
  hyphen between optional whitespace, and a group of letters (Latin, or Cyrillic from
  U+0410 to U+044F), digits, hyphens and underscores.
\<close>

definition PASSCODE_RE :: re where
  "PASSCODE_RE =
     Seq (Alt (lits [1050, 1086, 1076, 32, 1076, 1086, 1089, 1090, 1091, 1087, 1091])
         (Alt (lits [1050, 1086, 1076, 32, 1076, 1086, 1089, 1090, 1091, 1087, 1072])
         (Alt (lits (ascii ''Passcode''))
              (lits [1055, 1072, 1088, 1086, 1083, 1100]))))
       (Seq (Star Space) (Seq (Opt (Class [Ch 58, Ch 45])) (Seq (Star Space)
         (Group (Plus (Class [Range 65 90, Range 97 122, Range 1040 1071, Range 1072 1103,
                              Range 48 57, Ch 45, Ch 95]))))))"

definition extract_passcode :: "unicode \<Rightarrow> pystr \<Rightarrow> pystr option" where
  "extract_passcode U descr =
     (if descr = [] then None
      else (let t = replace descr [92, 110] [10]
            in case re_search U True PASSCODE_RE t of
                 Some m \<Rightarrow> Some (strip (group1 (snd m)))
               | None \<Rightarrow> None))"

text \<open>
  \<open>classify_place\<close>.  The room pattern is \<open>(aud\.?\s*\d+)\<close> with the Cyrillic
  abbreviation for a lecture room in place of \<open>aud\<close>.  The labels start with the
  pictographs U+1F310 (online), U+1F3EB (room) and U+1F4CD (location).
\<close>

definition room_abbr :: pystr where
  "room_abbr =
     [1072, 1091, 1076]"

definition room_abbr_dot :: pystr where
  "room_abbr_dot =
     [1072, 1091, 1076, 46]"

definition ROOM_RE :: re where
  "ROOM_RE = Group (Seq (lits room_abbr) (Seq (Opt (Lit 46)) (Seq (Star Space) (Plus Digit))))"

definition place_online :: pystr where
  "place_online =
     [127760, 32, 79, 110, 108, 105, 110, 101, 32, 40, 90, 111, 111, 109, 41]"

definition place_online_room :: pystr where
  "place_online_room =
     [127760, 32, 79, 110, 108, 105, 110, 101, 32, 40, 90, 111, 111, 109, 41, 32, 8226,
      32, 127979, 32]"

definition place_room :: pystr where
  "place_room =
     [127979, 32]"

definition place_location :: pystr where
  "place_location =
     [128205, 32]"

definition place_none :: pystr where
  "place_none =
     [128205, 32, 40, 1084, 1110, 1089, 1094, 1077, 32, 1085, 1077, 32, 1074, 1082,
      1072, 1079, 1072, 1085, 1086, 41]"

definition classify_place :: "unicode \<Rightarrow> pystr \<Rightarrow> pystr \<Rightarrow> pystr" where
  "classify_place U loc descr =
     (let blob = str_lower U (loc @ [10] @ descr)
      in if str_in (ascii ''online'') blob \<or> str_in (ascii ''zoom'') blob then
           (case re_search U True ROOM_RE blob of
              Some m \<Rightarrow>
                place_online_room @ strip (replace (group1 (snd m)) room_abbr room_abbr_dot)
            | None \<Rightarrow> place_online)
         else
           (case re_search U True ROOM_RE blob of
              Some m2 \<Rightarrow> place_room @ strip (replace (group1 (snd m2)) room_abbr room_abbr_dot)
            | None \<Rightarrow>
                if strip loc \<noteq> [] then place_location @ strip loc
                else place_none))"

text \<open>
  What the claim about places speaks of: the online hint and the room-number pattern in
  the lowercased combined text, and the room text that a label shows.
\<close>

definition place_blob :: "unicode \<Rightarrow> pystr \<Rightarrow> pystr \<Rightarrow> pystr" where
  "place_blob U loc descr = str_lower U (loc @ [10] @ descr)"

definition online_hint :: "pystr \<Rightarrow> bool" where
  "online_hint blob = (str_in (ascii ''online'') blob \<or> str_in (ascii ''zoom'') blob)"

definition room_text :: "nat \<times> cfg \<Rightarrow> pystr" where
  "room_text m = strip (replace (group1 (snd m)) room_abbr room_abbr_dot)"

section \<open>Message composer\<close>

text \<open>
  \<open>UA_DOW\<close> is the dictionary from \<open>date.weekday()\<close> (0 for Monday) to the Ukrainian
  name of the day; a lookup of a key that is not in it raises \<open>KeyError\<close>.  The weekday
  of a date is computed from its ordinal: the ordinal 1 is a Monday.
\<close>

definition dow_monday :: pystr where
  "dow_monday =
     [1055, 1086, 1085, 1077, 1076, 1110, 1083, 1086, 1082]"

definition dow_tuesday :: pystr where
  "dow_tuesday =
     [1042, 1110, 1074, 1090, 1086, 1088, 1086, 1082]"

definition dow_wednesday :: pystr where
  "dow_wednesday =
     [1057, 1077, 1088, 1077, 1076, 1072]"

definition dow_thursday :: pystr where
  "dow_thursday =
     [1063, 1077, 1090, 1074, 1077, 1088]"

definition dow_friday :: pystr where
  "dow_friday =
     [1055, 700, 1103, 1090, 1085, 1080, 1094, 1103]"

definition dow_saturday :: pystr where
  "dow_saturday =
     [1057, 1091, 1073, 1086, 1090, 1072]"

definition dow_sunday :: pystr where
  "dow_sunday =
     [1053, 1077, 1076, 1110, 1083, 1103]"

definition UA_DOW :: "(nat \<times> pystr) list" where
  "UA_DOW =
     [(0, dow_monday), (1, dow_tuesday), (2, dow_wednesday), (3, dow_thursday), 
      (4, dow_friday), (5, dow_saturday), (6, dow_sunday)]"

definition weekday :: "date \<Rightarrow> nat" where
  "weekday d = nat ((d + 6) mod 7)"

definition hhmm :: "('n, 'z, 't) dtlib \<Rightarrow> 't \<Rightarrow> pystr" where
  "hhmm D t = strftime D (astimezone D t (KYIV_TZ D)) (ascii ''%H:%M'')"

definition fmt_date_short :: "('n, 'z, 't) dtlib \<Rightarrow> date \<Rightarrow> pystr" where
  "fmt_date_short D d = date_strftime D d (ascii ''%d.%m'')"

text \<open>
  The text pieces of the messages, by their code points; the comments give their
  place in the source.
\<close>

definition hdr_open :: pystr where
  "hdr_open =
     [128197, 32, 60, 98, 62]"

definition hdr_mid :: pystr where
  "hdr_mid =
     [60, 47, 98, 62, 32, 8226, 32, 60, 98, 62]"

definition bold_close :: pystr where
  "bold_close =
     [60, 47, 98, 62]"

definition no_classes :: pystr where
  "no_classes =
     [8212, 32, 40, 1087, 1072, 1088, 32, 1085, 1077, 1084, 1072, 1108, 41]"

definition time_open :: pystr where
  "time_open =
     [128338, 32, 60, 98, 62]"

definition en_dash :: pystr where
  "en_dash =
     [8211]"

definition disc_open :: pystr where
  "disc_open =
     [128218, 32, 60, 98, 62]"

definition type_open :: pystr where
  "type_open =
     [127891, 32]"

definition teacher_open :: pystr where
  "teacher_open =
     [128105, 8205, 127979, 32]"

definition link_open :: pystr where
  "link_open =
     [128279, 32, 60, 97, 32, 104, 114, 101, 102, 61, 34]"

definition link_close :: pystr where
  "link_close =
     [34, 62, 1042, 1110, 1076, 1082, 1088, 1080, 1090, 1080, 32, 90, 111, 111, 109, 60,
      47, 97, 62]"

definition code_open :: pystr where
  "code_open =
     [128206, 32, 60, 99, 111, 100, 101, 62]"

definition code_close :: pystr where
  "code_close =
     [60, 47, 99, 111, 100, 101, 62]"

definition pass_open :: pystr where
  "pass_open =
     [128273, 32, 1050, 1086, 1076, 32, 1076, 1086, 1089, 1090, 1091, 1087, 1091, 58,
      32, 60, 98, 62]"

definition week_open :: pystr where
  "week_open =
     [128467, 65039, 32, 60, 98, 62, 1056, 1086, 1079, 1082, 1083, 1072, 1076, 32, 1085,
      1072, 32, 1090, 1080, 1078, 1076, 1077, 1085, 1100, 60, 47, 98, 62, 10, 60, 98,
      62]"

definition week_mid :: pystr where
  "week_mid =
     [32, 8211, 32]"

definition week_close :: pystr where
  "week_close =
     [60, 47, 98, 62, 10, 10]"

definition updated :: pystr where
  "updated =
     [10, 10, 9201, 65039, 32, 1054, 1085, 1086, 1074, 1083, 1077, 1085, 1086, 58, 32]"

definition separator :: pystr where
  "separator = replicate 20 9473"

definition escape_html :: "pystr \<Rightarrow> pystr" where
  "escape_html s =
     replace (replace (replace s (ascii ''&'') (ascii ''&amp;'')) (ascii ''<'') (ascii ''&lt;''))
       (ascii ''>'') (ascii ''&gt;'')"

definition escape_html_attr :: "pystr \<Rightarrow> pystr" where
  "escape_html_attr s = replace (escape_html s) [34] (ascii ''&quot;'')"

definition day_header :: "('n, 'z, 't) dtlib \<Rightarrow> date \<Rightarrow> pyerr + pystr" where
  "day_header D d =
     (case map_of UA_DOW (weekday d) of
        None \<Rightarrow> Inl KeyError
      | Some dow \<Rightarrow> Inr (hdr_open @ dow @ hdr_mid @ fmt_date_short D d @ bold_close))"

text \<open>
  \<open>event_lines\<close> is the body of the loop of \<open>format_day\<close>: the lines that one event
  appends.  An \<open>if x:\<close> on an optional string holds when the string is there and not
  empty; \<open>if_truthy x f\<close> is the list of lines \<open>f\<close> of the string when it holds.
\<close>

definition if_truthy :: "pystr option \<Rightarrow> (pystr \<Rightarrow> pystr list) \<Rightarrow> pystr list" where
  "if_truthy x f = (case x of None \<Rightarrow> [] | Some s \<Rightarrow> if s \<noteq> [] then f s else [])"

definition event_lines :: "unicode \<Rightarrow> ('n, 'z, 't) dtlib \<Rightarrow> 't Event \<Rightarrow> pystr list" where
  "event_lines U D ev =
     (let (discipline, etype) = split_summary U (summary ev);
          teacher = extract_teacher U (description ev);
          passcode = extract_passcode U (description ev);
          place = classify_place U (location ev) (description ev);
          links = extract_zoom_links U (description ev @ [10] @ location ev);
          link = (case links of [] \<Rightarrow> None | l # _ \<Rightarrow> Some l)
      in [time_open @ hhmm D (start ev) @ en_dash @ hhmm D (end' ev) @ bold_close,
          disc_open @ escape_html discipline @ bold_close]
         @ if_truthy etype (\<lambda>s. [type_open @ s])
         @ if_truthy teacher (\<lambda>s. [teacher_open @ escape_html s])
         @ [escape_html place]
         @ if_truthy link (\<lambda>s. [link_open @ escape_html_attr s @ link_close,
                                  code_open @ escape_html s @ code_close])
         @ if_truthy passcode (\<lambda>s. [pass_open @ escape_html s @ bold_close])
         @ [[]])"

definition pop_trailing_empty :: "pystr list \<Rightarrow> pystr list" where
  "pop_trailing_empty ls = rev (dropWhile (\<lambda>l. l = []) (rev ls))"









section \<open>Sample tables and a sample datetime library\<close>

text \<open>
  To evaluate the model on concrete inputs the library parameters need values.
  \<open>ucd_sample\<close> is an excerpt of the interpreter's tables: the case pairs of Basic Latin
  and of the Cyrillic block U+0400 to U+045F, the ASCII digits, and the four letters
  outside ASCII that the documentation of \<open>re.IGNORECASE\<close> names as matching ASCII
  letters (U+0130 and U+0131 match \<open>i\<close>, U+017F matches \<open>s\<close>, U+212A matches \<open>k\<close>).
  Every other code point is taken to be caseless and no digit.

  \<open>dt_sample\<close> stands for the datetime library on the inputs used below: \<open>strptime\<close>
  accepts the three formats of the source with fixed-width ASCII digit fields in range
  (tokens that the library accepts with the same field values) and rejects every other
  token; a naive datetime is its number of seconds since 1970-01-01T00:00:00, an
  aware datetime is its POSIX timestamp, a zone is its offset from UTC in seconds; the two
  zones known are UTC and Europe/Kyiv at its standard-time offset of two hours, and
  wall-clock readings of an aware datetime are in Kyiv time, the only zone in which the
  program reads them.  The theorems below hold for all values of the parameters; the
  samples occur only in evaluations at concrete inputs.
\<close>

definition lower_cp :: "cp \<Rightarrow> cp" where
  "lower_cp c =
     (if (65 \<le> c \<and> c \<le> 90) \<or> (1040 \<le> c \<and> c \<le> 1071) then c + 32
      else if 1024 \<le> c \<and> c \<le> 1039 then c + 80
      else if c = 8490 then 107
      else c)"

definition upper_cp :: "cp \<Rightarrow> cp" where
  "upper_cp c =
     (if (97 \<le> c \<and> c \<le> 122) \<or> (1072 \<le> c \<and> c \<le> 1103) then c - 32
      else if 1104 \<le> c \<and> c \<le> 1119 then c - 80
      else if c = 383 then 83
      else if c = 305 then 73
      else c)"

definition sample_casevariants :: "cp \<Rightarrow> cp list" where
  "sample_casevariants x =
     (if x = 383 then [115, 83]
      else if x = 8490 then [107, 75]
      else if x = 304 \<or> x = 305 then [105, 73]
      else if x = 115 \<or> x = 83 then [115, 83, 383]
      else if x = 107 \<or> x = 75 then [107, 75, 8490]
      else if x = 105 \<or> x = 73 then [105, 73, 304, 305]
      else [lower_cp x, upper_cp x])"

definition ucd_sample :: unicode where
  "ucd_sample =
     \<lparr>str_lower = (\<lambda>s. concat (map (\<lambda>c. if c = 304 then [105, 775] else [lower_cp c]) s)),
      str_upper = map upper_cp,
      isdecimal = (\<lambda>c. 48 \<le> c \<and> c \<le> 57),
      casevariants = sample_casevariants\<rparr>"

definition days_from_civil :: "int \<Rightarrow> int \<Rightarrow> int \<Rightarrow> int" where
  "days_from_civil y m d =
     (let y' = (if m \<le> 2 then y - 1 else y);
          era = y' div 400;
          yoe = y' - era * 400;
          doy = (153 * ((m + 9) mod 12) + 2) div 5 + d - 1;
          doe = yoe * 365 + yoe div 4 - yoe div 100 + doy
      in era * 146097 + doe - 719468)"

definition civil_from_days :: "int \<Rightarrow> int \<times> int \<times> int" where
  "civil_from_days z0 =
     (let z = z0 + 719468;
          era = z div 146097;
          doe = z - era * 146097;
          yoe = (doe - doe div 1460 + doe div 36524 - doe div 146096) div 365;
          doy = doe - (365 * yoe + yoe div 4 - yoe div 100);
          mp = (5 * doy + 2) div 153;
          d = doy - (153 * mp + 2) div 5 + 1;
          m = (if mp < 10 then mp + 3 else mp - 9);
          y = yoe + era * 400 + (if m \<le> 2 then 1 else 0)
      in (y, m, d))"

definition days_in_month :: "int \<Rightarrow> int \<Rightarrow> int" where
  "days_in_month y m =
     (if m = 2 then (if y mod 4 = 0 \<and> (y mod 100 \<noteq> 0 \<or> y mod 400 = 0) then 29 else 28)
      else if m = 4 \<or> m = 6 \<or> m = 9 \<or> m = 11 then 30 else 31)"

definition is_ascii_digits :: "pystr \<Rightarrow> bool" where
  "is_ascii_digits s = list_all (\<lambda>c. 48 \<le> c \<and> c \<le> 57) s"

definition digits_value :: "pystr \<Rightarrow> int" where
  "digits_value s = foldl (\<lambda>a c. 10 * a + (int c - 48)) 0 s"

definition two_digits :: "int \<Rightarrow> pystr" where
  "two_digits n = [nat (48 + n div 10), nat (48 + n mod 10)]"

definition sample_naive :: "pystr \<Rightarrow> pystr \<Rightarrow> pyerr + int" where
  "sample_naive ymd hms =
     (let y = digits_value (take 4 ymd); m = digits_value (take 2 (drop 4 ymd));
          d = digits_value (drop 6 ymd); hh = digits_value (take 2 hms);
          mm = digits_value (take 2 (drop 2 hms)); ss = digits_value (drop 4 hms)
      in if is_ascii_digits ymd \<and> is_ascii_digits hms \<and> length ymd = 8 \<and> length hms = 6
            \<and> 1 \<le> y \<and> 1 \<le> m \<and> m \<le> 12 \<and> 1 \<le> d \<and> d \<le> days_in_month y m
            \<and> hh \<le> 23 \<and> mm \<le> 59 \<and> ss \<le> 59
         then Inr (days_from_civil y m d * 86400 + hh * 3600 + mm * 60 + ss)
         else Inl ValueError)"

definition sample_strptime :: "pystr \<Rightarrow> pystr \<Rightarrow> pyerr + int" where
  "sample_strptime s fmt =
     (if fmt = ascii ''%Y%m%d'' then sample_naive s (ascii ''000000'')
      else if fmt = ascii ''%Y%m%dT%H%M%S'' then
        (if length s = 15 \<and> s ! 8 = 84 then sample_naive (take 8 s) (drop 9 s) else Inl ValueError)
      else if fmt = ascii ''%Y%m%dT%H%M%SZ'' then
        (if length s = 16 \<and> s ! 8 = 84 \<and> s ! 15 = 90 then sample_naive (take 8 s) (take 6 (drop 9 s))
         else Inl ValueError)
      else Inl ValueError)"

definition sample_ZoneInfo :: "pystr \<Rightarrow> pyerr + int" where
  "sample_ZoneInfo k =
     (if k = ascii ''Europe/Kyiv'' then Inr 7200
      else if k = ascii ''UTC'' then Inr 0
      else Inl ZoneInfoNotFoundError)"

definition sample_strftime :: "int \<Rightarrow> pystr \<Rightarrow> pystr" where
  "sample_strftime t fmt =
     (let s = (t + 7200) mod 86400
      in if fmt = ascii ''%H:%M'' then two_digits (s div 3600) @ [58] @ two_digits (s mod 3600 div 60)
         else [])"

definition sample_date_strftime :: "date \<Rightarrow> pystr \<Rightarrow> pystr" where
  "sample_date_strftime d fmt =
     (case civil_from_days (d - 719163) of
        (y, m, dd) \<Rightarrow> if fmt = ascii ''%d.%m'' then two_digits dd @ [46] @ two_digits m else [])"

definition dt_sample :: "(int, int, int) dtlib" where
  "dt_sample =
     \<lparr>strptime = sample_strptime,
      date_of = (\<lambda>n. n div 86400 + 719163),
      datetime_at = (\<lambda>d z. (d - 719163) * 86400 - z),
      ZoneInfo = sample_ZoneInfo,
      KYIV_TZ = 7200,
      utc = 0,
      replace_tzinfo = (\<lambda>n z. n - z),
      astimezone = (\<lambda>t z. t),
      date_of_aware = (\<lambda>t. (t + 7200) div 86400 + 719163),
      strftime = sample_strftime,
      date_strftime = sample_date_strftime\<rparr>"


text \<open>The body of a sample block: a start, an end in lower case and a summary.\<close>

definition block_body_sample :: "pystr list" where
  "block_body_sample =
     [ascii ''DTSTART:20240304T090000'', ascii ''dtend:20240304T103000'', ascii ''SUMMARY: A '']"

section \<open>Sample inputs\<close>

text \<open>
  Inputs for the evaluations.  Titles: a subject, an em-dash between spaces and the word
  for lecture (\<open>title_lecture\<close>, subject \<open>disc_lecture\<close>); a subject, a hyphen between
  spaces and two words of which the first starts with the laboratory stem
  (\<open>title_lab\<close>, subject \<open>disc_lab\<close>); one word between spaces (\<open>title_plain\<close>,
  trimmed \<open>disc_plain\<close>).  Descriptions: U+200B, then the abbreviation for docent with
  a capital letter, a full stop, a space and a surname (\<open>descr_zw\<close>; without the U+200B
  \<open>descr_no_zw\<close>; the surname \<open>teacher_zw\<close>); the word Zoom, a backslash and the
  letter n, then the abbreviation for lecturer, a full stop, a colon, a space and a name
  (\<open>descr_two\<close>; its lines \<open>descr_two_l1\<close> and \<open>descr_two_l2\<close>; the name
  \<open>teacher_two\<close>).  A link followed at once by a word in Turkish letters, U+0131 U+015F
  U+0131 k (\<open>text_link\<close>), and the link with the first of these letters
  (\<open>link_found\<close>).  A location (\<open>loc_room\<close>) and a description with the word Zoom and
  a room number (\<open>descr_room\<close>); their lowercased combination (\<open>blob_room\<close>), the room
  pattern's match in it (\<open>room_found\<close>) and the room text shown (\<open>room_shown\<close>).
\<close>

definition title_lecture :: pystr where
  "title_lecture =
     [1052, 1072, 1090, 1077, 1084, 1072, 1090, 1080, 1082, 1072, 32, 8212, 32, 1051,
      1077, 1082, 1094, 1110, 1103]"

definition disc_lecture :: pystr where
  "disc_lecture =
     [1052, 1072, 1090, 1077, 1084, 1072, 1090, 1080, 1082, 1072]"

definition title_lab :: pystr where
  "title_lab =
     [1060, 1110, 1079, 1080, 1082, 1072, 32, 45, 32, 1083, 1072, 1073, 46, 32, 1088,
      1086, 1073, 1086, 1090, 1072]"

definition disc_lab :: pystr where
  "disc_lab =
     [1060, 1110, 1079, 1080, 1082, 1072]"

definition title_plain :: pystr where
  "title_plain =
     [32, 1060, 1110, 1079, 1082, 1091, 1083, 1100, 1090, 1091, 1088, 1072, 32]"

definition disc_plain :: pystr where
  "disc_plain =
     [1060, 1110, 1079, 1082, 1091, 1083, 1100, 1090, 1091, 1088, 1072]"

definition descr_zw :: pystr where
  "descr_zw =
     [8203, 1044, 1086, 1094, 46, 32, 1030, 1074, 1072, 1085, 1086, 1074]"

definition descr_no_zw :: pystr where
  "descr_no_zw =
     [1044, 1086, 1094, 46, 32, 1030, 1074, 1072, 1085, 1086, 1074]"

definition teacher_zw :: pystr where
  "teacher_zw =
     [1030, 1074, 1072, 1085, 1086, 1074]"

definition descr_two :: pystr where
  "descr_two =
     [90, 111, 111, 109, 92, 110, 1074, 1080, 1082, 1083, 46, 58, 32, 1056, 1091, 1076,
      1077, 1085, 1082, 1086, 32, 1040, 46, 1042, 46]"

definition descr_two_l1 :: pystr where
  "descr_two_l1 =
     [90, 111, 111, 109]"

definition descr_two_l2 :: pystr where
  "descr_two_l2 =
     [1074, 1080, 1082, 1083, 46, 58, 32, 1056, 1091, 1076, 1077, 1085, 1082, 1086, 32,
      1040, 46, 1042, 46]"

definition teacher_two :: pystr where
  "teacher_two =
     [1056, 1091, 1076, 1077, 1085, 1082, 1086, 32, 1040, 46, 1042, 46]"

definition text_link :: pystr where
  "text_link =
     [104, 116, 116, 112, 115, 58, 47, 47, 122, 111, 111, 109, 46, 117, 115, 47, 106,
      47, 49, 50, 51, 305, 351, 305, 107]"

definition link_found :: pystr where
  "link_found =
     [104, 116, 116, 112, 115, 58, 47, 47, 122, 111, 111, 109, 46, 117, 115, 47, 106,
      47, 49, 50, 51, 305]"

definition loc_room :: pystr where
  "loc_room =
     [1082, 1086, 1088, 1087, 1091, 1089, 32, 50]"

definition descr_room :: pystr where
  "descr_room =
     [90, 111, 111, 109, 44, 32, 1072, 1091, 1076, 46, 32, 50, 48, 55]"

definition blob_room :: pystr where
  "blob_room =
     [1082, 1086, 1088, 1087, 1091, 1089, 32, 50, 10, 122, 111, 111, 109, 44, 32, 1072,
      1091, 1076, 46, 32, 50, 48, 55]"

definition room_found :: pystr where
  "room_found =
     [1072, 1091, 1076, 46, 32, 50, 48, 55]"

definition room_shown :: pystr where
  "room_shown =
     [1072, 1091, 1076, 46, 46, 32, 50, 48, 55]"

text \<open>
  The event of the end-to-end scenario of the specification: it starts on 4 March 2024
  at 09:00 Kyiv time and ends at 10:30; its summary is \<open>title_lecture\<close>, its
  description (\<open>descr_scenario\<close>) has a line with a docent, a line with a Zoom link and
  a line with an access code, and its location is empty.  \<open>event_late\<close> starts on
  12 March 2024.  The ordinal of 4 March 2024 is 738949.
\<close>

definition descr_scenario :: pystr where
  "descr_scenario =
     [1044, 1086, 1094, 46, 58, 32, 1030, 1074, 1072, 1085, 1086, 1074, 32, 1030, 46,
      1030, 46, 10, 104, 116, 116, 112, 115, 58, 47, 47, 122, 111, 111, 109, 46, 117,
      115, 47, 106, 47, 49, 50, 51, 32, 10, 1050, 1086, 1076, 32, 1076, 1086, 1089,
      1090, 1091, 1087, 1091, 58, 32, 65, 66, 49, 50]"

definition teacher_scenario :: pystr where
  "teacher_scenario =
     [1030, 1074, 1072, 1085, 1086, 1074, 32, 1030, 46, 1030, 46]"

definition event_sample :: "int Event" where
  "event_sample =
     \<lparr>start = 1709535600, end' = 1709541000, summary = title_lecture,
      description = descr_scenario, location = []\<rparr>"


section \<open>Evaluation on concrete inputs\<close>

text \<open>
  The fields of the sample tables and of the sample library, and the collections of
  defining equations with which \<open>simp\<close> evaluates the model on concrete inputs.
\<close>

lemma ucd_sample_simps:
  "str_lower ucd_sample s = concat (map (\<lambda>c. if c = 304 then [105, 775] else [lower_cp c]) s)"
  "str_upper ucd_sample s = map upper_cp s"
  "isdecimal ucd_sample c = (48 \<le> c \<and> c \<le> 57)"
  "casevariants ucd_sample c = sample_casevariants c"
  by (simp_all add: ucd_sample_def)

lemma dt_sample_simps:
  "strptime dt_sample = sample_strptime"
  "date_of dt_sample n = n div 86400 + 719163"
  "datetime_at dt_sample d z = (d - 719163) * 86400 - z"
  "ZoneInfo dt_sample = sample_ZoneInfo"
  "KYIV_TZ dt_sample = 7200"
  "utc dt_sample = 0"
  "replace_tzinfo dt_sample n z = n - z"
  "astimezone dt_sample t z = t"
  "date_of_aware dt_sample t = (t + 7200) div 86400 + 719163"
  "strftime dt_sample = sample_strftime"
  "date_strftime dt_sample = sample_date_strftime"
  by (simp_all add: dt_sample_def)

lemmas sample_defs = ucd_sample_simps dt_sample_simps sample_strptime_def sample_naive_def
  sample_ZoneInfo_def days_from_civil_def days_in_month_def is_ascii_digits_def digits_value_def
  lower_cp_def upper_cp_def sample_casevariants_def ascii_def

lemmas str_defs = strip_def lstrip_def rstrip_def isspace_def endswith_def split_once_def

lemmas re_defs = re_fullmatch_def re_search_def re_match_at_def re_match_def run_length_def
  group1_def

lemmas parse_defs = parse_ics_events_def unfold_ics_lines_def unfold_lines_def unfold_step_def
  splitlines_def is_linebreak_def parse_line_def flush_def add_field_def field_keys_def cur_get_def
  TZID_RE_def pstate0_def parse_dt_def tzinfo_or_kyiv_def block_fields_def block_lines_def
  lacks_start_or_end_def block_event_def is_date_only_def dt_format_def

lemmas ext_defs = split_summary_def split_at_sep_def TYPE_WORDS_def stem_lecture_def label_lecture_def
  stem_practical_def label_practical_def stem_laboratory_def label_laboratory_def stem_seminar_def
  label_seminar_def normalize_for_links_def url_chars_def URL_RE_def extract_zoom_links_def
  is_url_char_def role_pattern_def teacher_patterns_def teacher_lines_def extract_teacher_def
  extract_teacher_spec_def PASSCODE_RE_def extract_passcode_def room_abbr_def room_abbr_dot_def
  ROOM_RE_def place_online_def place_online_room_def place_room_def place_location_def
  place_none_def classify_place_def place_blob_def online_hint_def room_text_def replace_def
  re_findall_def splitlines_def is_linebreak_def

lemmas input_defs = title_lecture_def disc_lecture_def title_lab_def disc_lab_def title_plain_def
  disc_plain_def descr_zw_def descr_no_zw_def teacher_zw_def descr_two_def
  descr_two_l1_def descr_two_l2_def teacher_two_def text_link_def link_found_def
  loc_room_def descr_room_def blob_room_def room_found_def room_shown_def descr_scenario_def teacher_scenario_def

lemmas msg_defs = dow_monday_def dow_tuesday_def dow_wednesday_def dow_thursday_def dow_friday_def
  dow_saturday_def dow_sunday_def UA_DOW_def weekday_def hhmm_def fmt_date_short_def hdr_open_def
  hdr_mid_def bold_close_def no_classes_def time_open_def en_dash_def disc_open_def type_open_def
  teacher_open_def link_open_def link_close_def code_open_def code_close_def pass_open_def
  week_open_def week_mid_def week_close_def updated_def separator_def escape_html_def
  escape_html_attr_def day_header_def if_truthy_def pop_trailing_empty_def sample_strftime_def
  sample_date_strftime_def civil_from_days_def two_digits_def

section \<open>Properties of the dedupe gate\<close>

text \<open>
  Claim C1.  \<open>should_post\<close> is true exactly when the value stored under the key is not
  the given stamp, which includes the case that nothing is stored; so it is true on the
  empty state for every key and stamp; and right after \<open>mark_posted\<close> with a stamp it is
  false for that key and stamp.
\<close>

theorem should_post_dedupe:
  "(should_post st key stamp \<longleftrightarrow> (case st key of None \<Rightarrow> True | Some v \<Rightarrow> v \<noteq> PyStr stamp))
   \<and> should_post Map.empty key stamp
   \<and> \<not> should_post (mark_posted st key S) key S"
  by (simp add: should_post_def mark_posted_def dict_get_def split: option.split)

section \<open>Properties of the folded-line reassembler\<close>

lemma ascii_space: "ascii '' '' = [32]"
  by (simp add: ascii_def)

lemma unfold_step_cases:
  "unfold_step out l =
    (if is_continuation l then (if out = [] then [lstrip l] else butlast out @ [last out @ tl l])
     else out @ [l])"
  by (cases l) (auto simp: unfold_step_def is_continuation_def ascii_space drop_Suc)

lemma foldl_unfold_nonempty:
  "out \<noteq> [] \<Longrightarrow> foldl unfold_step out ls = butlast out @ join_continuations (last out) ls"
proof (induction ls arbitrary: out)
  case Nil
  then show ?case by simp
next
  case (Cons l ls)
  show ?case
  proof (cases "is_continuation l")
    case True
    let ?out = "butlast out @ [last out @ tl l]"
    have "foldl unfold_step out (l # ls) = foldl unfold_step ?out ls"
      using Cons.prems True by (simp add: unfold_step_cases)
    also have "\<dots> = butlast ?out @ join_continuations (last ?out) ls"
      by (rule Cons.IH) simp
    finally show ?thesis using True by simp
  next
    case False
    let ?out = "out @ [l]"
    have "foldl unfold_step out (l # ls) = foldl unfold_step ?out ls"
      using False by (simp add: unfold_step_cases)
    also have "\<dots> = butlast ?out @ join_continuations (last ?out) ls"
      by (rule Cons.IH) simp
    finally show ?thesis using False Cons.prems by simp
  qed
qed

lemma unfold_lines_logical: "unfold_lines ls = logical_lines ls"
proof (cases ls)
  case Nil
  then show ?thesis by (simp add: logical_lines_def unfold_lines_def)
next
  case (Cons l ls')
  have "foldl unfold_step [] (l # ls') =
        foldl unfold_step [if is_continuation l then lstrip l else l] ls'"
    by (simp add: unfold_step_cases)
  then show ?thesis
    using Cons by (simp add: foldl_unfold_nonempty logical_lines_def unfold_lines_def)
qed

lemma unfold_lines_snoc: "unfold_lines (prev @ [l]) = unfold_step (unfold_lines prev) l"
  by (simp add: unfold_lines_def)

lemma unfold_step_nonempty: "unfold_step out l \<noteq> []"
  by (simp add: unfold_step_cases)

lemma unfold_lines_empty_iff: "unfold_lines prev = [] \<longleftrightarrow> prev = []"
  by (cases prev rule: rev_cases) (simp_all add: unfold_lines_def unfold_step_nonempty)

text \<open>
  Claim C3.  The reassembler returns the logical lines of the physical lines of the text
  (\<open>logical_lines\<close>, the rule as the specification words it).  Line by line: a physical
  line that starts with a space or a tab is appended, without that one character, to the
  logical line before it; without a logical line before it, it becomes a logical line of
  its own with its leading whitespace stripped; every other physical line, the empty
  line among them, becomes a new logical line unchanged.
\<close>

theorem unfold_ics_lines_rules:
  "unfold_ics_lines text = logical_lines (splitlines text)
   \<and> unfold_lines (prev @ [l]) =
       (if is_continuation l then
          (if prev = [] then [lstrip l]
           else butlast (unfold_lines prev) @ [last (unfold_lines prev) @ drop 1 l])
        else unfold_lines prev @ [l])
   \<and> unfold_lines (prev @ [[]]) = unfold_lines prev @ [[]]
   \<and> is_continuation l = (startswith l [32] \<or> startswith l [9])"
proof -
  have a: "unfold_ics_lines text = logical_lines (splitlines text)"
    by (simp add: unfold_ics_lines_def unfold_lines_logical)
  have b: "unfold_lines (prev @ [l]) =
       (if is_continuation l then
          (if prev = [] then [lstrip l]
           else butlast (unfold_lines prev) @ [last (unfold_lines prev) @ drop 1 l])
        else unfold_lines prev @ [l])"
    by (simp add: unfold_lines_snoc unfold_step_cases unfold_lines_empty_iff drop_Suc)
  have c: "unfold_lines (prev @ [[]]) = unfold_lines prev @ [[]]"
    by (simp add: unfold_lines_snoc unfold_step_def)
  have d: "is_continuation l = (startswith l [32] \<or> startswith l [9])"
    by (cases l) (auto simp: is_continuation_def)
  from a b c d show ?thesis by blast
qed

section \<open>Properties of the temporal normalizer\<close>









section \<open>Properties of the event block parser\<close>

lemma parse_lines_append:
  "parse_lines U D st (a @ b) =
     (case parse_lines U D st a of Inl e \<Rightarrow> Inl e | Inr st' \<Rightarrow> parse_lines U D st' b)"
  by (induction a arbitrary: st) (auto split: sum.splits)

lemma parse_lines_body:
  "in_event st \<Longrightarrow> \<forall>l\<in>set body. l \<noteq> ascii ''BEGIN:VEVENT'' \<and> l \<noteq> ascii ''END:VEVENT'' \<Longrightarrow>
   parse_lines U D st body =
     Inr (st\<lparr>cur := foldl (\<lambda>c l. if 58 \<in> set l then add_field U c l else c) (cur st) body\<rparr>)"
proof (induction body arbitrary: st)
  case Nil
  then show ?case by simp
next
  case (Cons l body)
  let ?st = "st\<lparr>cur := (if 58 \<in> set l then add_field U (cur st) l else cur st)\<rparr>"
  have step: "parse_line U D st l = Inr ?st"
    using Cons.prems by (simp add: parse_line_def)
  have "parse_lines U D ?st body =
     Inr (?st\<lparr>cur := foldl (\<lambda>c l. if 58 \<in> set l then add_field U c l else c) (cur ?st) body\<rparr>)"
    using Cons.prems by (intro Cons.IH) simp_all
  then show ?case using step by simp
qed

lemma parse_lines_block:
  assumes "\<forall>l\<in>set body. l \<noteq> ascii ''BEGIN:VEVENT'' \<and> l \<noteq> ascii ''END:VEVENT''"
  shows "parse_lines U D st (block_lines body) =
     (case flush U D (block_fields U body) (events st) of
        Inl e \<Rightarrow> Inl e
      | Inr (c, evs) \<Rightarrow> Inr (st\<lparr>in_event := False, cur := c, events := evs\<rparr>))"
proof -
  let ?st1 = "st\<lparr>in_event := True, cur := []\<rparr>"
  let ?st2 = "?st1\<lparr>cur := block_fields U body\<rparr>"
  have b: "parse_line U D st (ascii ''BEGIN:VEVENT'') = Inr ?st1"
    by (simp add: parse_line_def)
  have m: "parse_lines U D ?st1 body = Inr ?st2"
    using parse_lines_body[of ?st1 body U D] assms by (simp add: block_fields_def)
  have ne: "ascii ''END:VEVENT'' \<noteq> ascii ''BEGIN:VEVENT''"
    by (simp add: ascii_def)
  have e: "parse_line U D ?st2 (ascii ''END:VEVENT'') =
     (case flush U D (block_fields U body) (events st) of
        Inl e \<Rightarrow> Inl e
      | Inr (c, evs) \<Rightarrow> Inr (st\<lparr>in_event := False, cur := c, events := evs\<rparr>))"
    using ne by (simp add: parse_line_def split: sum.splits prod.splits)
  show ?thesis
    unfolding block_lines_def
    using b m e by (simp add: parse_lines_append split: sum.splits prod.splits)
qed

lemma cur_get_Nil: "cur_get [] k = (None, [])"
  by (simp add: cur_get_def)

lemma flush_lacking: "lacks_start_or_end c \<Longrightarrow> flush U D c evs = Inr ([], evs)"
  by (auto simp: flush_def lacks_start_or_end_def Let_def split: prod.splits)

lemma flush_present:
  "\<not> lacks_start_or_end c \<Longrightarrow>
   flush U D c evs =
     (case parse_dt U D (snd (cur_get c (ascii ''DTSTART''))) (fst (cur_get c (ascii ''DTSTART''))) of
        Inl e \<Rightarrow> Inl e
      | Inr s \<Rightarrow>
         (case parse_dt U D (snd (cur_get c (ascii ''DTEND''))) (fst (cur_get c (ascii ''DTEND''))) of
            Inl e \<Rightarrow> Inl e
          | Inr en \<Rightarrow> Inr ([], evs @ [block_event c s en])))"
  by (auto simp: flush_def lacks_start_or_end_def Let_def block_event_def cur_get_Nil
           split: prod.splits sum.splits)


text \<open>
  Claim C4, as amended.  Take a block: the opening marker, body lines none of which is
  a marker, and the closing marker, read from any parser state.  If the fields that the
  body accumulates lack a start value or an end value (absent or empty), the block adds
  no event and raises nothing; the parser is outside a block with an empty accumulator.
  If both values are there and the normalizer accepts both, the block appends exactly one
  event, built from the two instants and the stripped text fields.  If the normalizer
  rejects the start value, or accepts it and rejects the end value, its error leaves the
  parser.
\<close>

theorem block_start_end:
  assumes "\<forall>l\<in>set body. l \<noteq> ascii ''BEGIN:VEVENT'' \<and> l \<noteq> ascii ''END:VEVENT''"
    and "c = block_fields U body"
    and "ps = parse_dt U D (snd (cur_get c (ascii ''DTSTART''))) (fst (cur_get c (ascii ''DTSTART'')))"
    and "pe = parse_dt U D (snd (cur_get c (ascii ''DTEND''))) (fst (cur_get c (ascii ''DTEND'')))"
  shows
   "(lacks_start_or_end c \<longrightarrow>
       parse_lines U D st (block_lines body) =
         Inr (st\<lparr>in_event := False, cur := [], events := events st\<rparr>))
    \<and> (\<not> lacks_start_or_end c \<and> ps = Inr s \<and> pe = Inr e \<longrightarrow>
       parse_lines U D st (block_lines body) =
         Inr (st\<lparr>in_event := False, cur := [], events := events st @ [block_event c s e]\<rparr>))
    \<and> (\<not> lacks_start_or_end c \<and> ps = Inl err \<longrightarrow>
       parse_lines U D st (block_lines body) = Inl err)
    \<and> (\<not> lacks_start_or_end c \<and> ps = Inr s \<and> pe = Inl err \<longrightarrow>
       parse_lines U D st (block_lines body) = Inl err)"
proof -
  note blk = parse_lines_block[OF assms(1), of U D st, folded assms(2)]
  have 1: "lacks_start_or_end c \<longrightarrow>
       parse_lines U D st (block_lines body) =
         Inr (st\<lparr>in_event := False, cur := [], events := events st\<rparr>)"
    by (simp add: blk flush_lacking)
  have 2: "\<not> lacks_start_or_end c \<and> ps = Inr s \<and> pe = Inr e \<longrightarrow>
       parse_lines U D st (block_lines body) =
         Inr (st\<lparr>in_event := False, cur := [], events := events st @ [block_event c s e]\<rparr>)"
    using assms(3,4) by (auto simp: blk flush_present)
  have 3: "\<not> lacks_start_or_end c \<and> ps = Inl err \<longrightarrow>
       parse_lines U D st (block_lines body) = Inl err"
    using assms(3,4) by (auto simp: blk flush_present)
  have 4: "\<not> lacks_start_or_end c \<and> ps = Inr s \<and> pe = Inl err \<longrightarrow>
       parse_lines U D st (block_lines body) = Inl err"
    using assms(3,4) by (auto simp: blk flush_present)
  from 1 2 3 4 show ?thesis by blast
qed

text \<open>
  The amended claim at concrete blocks, with the sample library: a block that has only
  the start line of the sample body, and the block of the whole sample body.
\<close>

theorem block_start_end_witness:
  "ascii ''BEGIN:VEVENT'' \<notin> set block_body_sample
   \<and> ascii ''END:VEVENT'' \<notin> set block_body_sample
   \<and> lacks_start_or_end (block_fields ucd_sample (take 1 block_body_sample))
   \<and> parse_lines ucd_sample dt_sample pstate0 (block_lines (take 1 block_body_sample))
      = Inr \<lparr>in_event = False, cur = [], events = []\<rparr>
   \<and> \<not> lacks_start_or_end (block_fields ucd_sample block_body_sample)
   \<and> parse_lines ucd_sample dt_sample pstate0 (block_lines block_body_sample)
      = Inr \<lparr>in_event = False, cur = [],
             events = [\<lparr>start = 1709535600, end' = 1709541000, summary = ascii ''A'',
                        description = [], location = []\<rparr>]\<rparr>"
proof -
  have nm: "\<forall>l\<in>set block_body_sample. l \<noteq> ascii ''BEGIN:VEVENT'' \<and> l \<noteq> ascii ''END:VEVENT''"
    by (simp add: block_body_sample_def ascii_def)
  then have nm1: "\<forall>l\<in>set (take 1 block_body_sample).
      l \<noteq> ascii ''BEGIN:VEVENT'' \<and> l \<noteq> ascii ''END:VEVENT''"
    by (simp add: block_body_sample_def)
  have f1: "block_fields ucd_sample (take 1 block_body_sample)
      = [(ascii ''DTSTART'', (None, ascii ''20240304T090000''))]"
    by (simp add: block_body_sample_def block_fields_def add_field_def field_keys_def
        sample_defs str_defs)
  have f: "block_fields ucd_sample block_body_sample
      = [(ascii ''DTSTART'', (None, ascii ''20240304T090000'')),
         (ascii ''DTEND'', (None, ascii ''20240304T103000'')),
         (ascii ''SUMMARY'', (None, ascii ''A''))]"
    by (simp add: block_body_sample_def block_fields_def add_field_def field_keys_def
        sample_defs str_defs)
  have l1: "lacks_start_or_end (block_fields ucd_sample (take 1 block_body_sample))"
    unfolding f1 by (simp add: lacks_start_or_end_def cur_get_def ascii_def)
  have l: "\<not> lacks_start_or_end (block_fields ucd_sample block_body_sample)"
    unfolding f by (simp add: lacks_start_or_end_def cur_get_def ascii_def)
  have ps: "parse_dt ucd_sample dt_sample
       (snd (cur_get (block_fields ucd_sample block_body_sample) (ascii ''DTSTART'')))
       (fst (cur_get (block_fields ucd_sample block_body_sample) (ascii ''DTSTART'')))
      = Inr 1709535600"
    unfolding f by (simp add: parse_defs sample_defs str_defs re_defs)
  have pe: "parse_dt ucd_sample dt_sample
       (snd (cur_get (block_fields ucd_sample block_body_sample) (ascii ''DTEND'')))
       (fst (cur_get (block_fields ucd_sample block_body_sample) (ascii ''DTEND'')))
      = Inr 1709541000"
    unfolding f by (simp add: parse_defs sample_defs str_defs re_defs)
  have ev: "block_event (block_fields ucd_sample block_body_sample) 1709535600 1709541000
      = \<lparr>start = 1709535600, end' = 1709541000, summary = ascii ''A'',
         description = [], location = []\<rparr>"
    unfolding f by (simp add: block_event_def cur_get_def str_defs ascii_def)
  have c1: "parse_lines ucd_sample dt_sample pstate0 (block_lines (take 1 block_body_sample))
      = Inr (pstate0\<lparr>in_event := False, cur := [], events := events pstate0\<rparr>)"
    using l1 block_start_end[OF nm1 refl refl refl, where U = ucd_sample and D = dt_sample
        and st = pstate0]
    by blast
  have c2: "parse_lines ucd_sample dt_sample pstate0 (block_lines block_body_sample)
      = Inr (pstate0\<lparr>in_event := False, cur := [],
               events := events pstate0
                 @ [block_event (block_fields ucd_sample block_body_sample) 1709535600 1709541000]\<rparr>)"
    using l ps pe block_start_end[OF nm refl refl refl, where U = ucd_sample and D = dt_sample
        and st = pstate0 and s = 1709535600 and e = 1709541000]
    by blast
  have nm': "ascii ''BEGIN:VEVENT'' \<notin> set block_body_sample"
    "ascii ''END:VEVENT'' \<notin> set block_body_sample"
    using nm by blast+
  show ?thesis
    using nm' l1 l c1 c2 unfolding ev by (simp add: pstate0_def)
qed

text \<open>
  Claim C4 as stated fails where it says that every block with a start and an end field
  yields one event: the block below holds both, the normalizer rejects its start value
  \<open>2024-03-04\<close>, and the parser raises \<open>ValueError\<close> instead of returning events.
\<close>

theorem block_with_both_fields_raises:
  "\<not> lacks_start_or_end
       (block_fields ucd_sample [ascii ''DTSTART:2024-03-04'', ascii ''DTEND:20240304T103000''])
   \<and> parse_ics_events ucd_sample dt_sample
       (ascii ''BEGIN:VEVENT'' @ [13, 10] @ ascii ''DTSTART:2024-03-04'' @ [13, 10]
        @ ascii ''DTEND:20240304T103000'' @ [13, 10] @ ascii ''END:VEVENT'' @ [13, 10])
     = (Inl ValueError :: pyerr + int Event list)"
proof -
  have f: "block_fields ucd_sample [ascii ''DTSTART:2024-03-04'', ascii ''DTEND:20240304T103000'']
      = [(ascii ''DTSTART'', (None, ascii ''2024-03-04'')),
         (ascii ''DTEND'', (None, ascii ''20240304T103000''))]"
    by (simp add: block_fields_def add_field_def field_keys_def sample_defs str_defs)
  have l: "\<not> lacks_start_or_end
       (block_fields ucd_sample [ascii ''DTSTART:2024-03-04'', ascii ''DTEND:20240304T103000''])"
    unfolding f by (simp add: lacks_start_or_end_def cur_get_def ascii_def)
  have u: "unfold_ics_lines
       (ascii ''BEGIN:VEVENT'' @ [13, 10] @ ascii ''DTSTART:2024-03-04'' @ [13, 10]
        @ ascii ''DTEND:20240304T103000'' @ [13, 10] @ ascii ''END:VEVENT'' @ [13, 10])
      = block_lines [ascii ''DTSTART:2024-03-04'', ascii ''DTEND:20240304T103000'']"
    by (simp add: unfold_ics_lines_def unfold_lines_def unfold_step_def splitlines_def
        is_linebreak_def block_lines_def ascii_def)
  have p: "parse_dt ucd_sample dt_sample (ascii ''2024-03-04'') None
      = (Inl ValueError :: pyerr + int)"
    by (simp add: parse_defs sample_defs str_defs re_defs)
  have g: "cur_get (block_fields ucd_sample [ascii ''DTSTART:2024-03-04'',
        ascii ''DTEND:20240304T103000'']) (ascii ''DTSTART'') = (None, ascii ''2024-03-04'')"
    unfolding f by (simp add: cur_get_def ascii_def)
  have nm: "\<forall>l\<in>set [ascii ''DTSTART:2024-03-04'', ascii ''DTEND:20240304T103000''].
      l \<noteq> ascii ''BEGIN:VEVENT'' \<and> l \<noteq> ascii ''END:VEVENT''"
    by (simp add: ascii_def)
  have "parse_lines ucd_sample dt_sample (pstate0 :: int pstate)
         (block_lines [ascii ''DTSTART:2024-03-04'', ascii ''DTEND:20240304T103000''])
      = Inl ValueError"
    unfolding parse_lines_block[OF nm]
    by (subst flush_present[OF l]) (simp add: g p)
  then have "parse_ics_events ucd_sample dt_sample
       (ascii ''BEGIN:VEVENT'' @ [13, 10] @ ascii ''DTSTART:2024-03-04'' @ [13, 10]
        @ ascii ''DTEND:20240304T103000'' @ [13, 10] @ ascii ''END:VEVENT'' @ [13, 10])
     = (Inl ValueError :: pyerr + int Event list)"
    unfolding parse_ics_events_def u by simp
  with l show ?thesis by (rule conjI)
qed






section \<open>Properties of the summary splitter\<close>









section \<open>Properties of link detection\<close>

text \<open>
  Claim C7 fails on the code.  \<open>URL_RE\<close> is compiled with \<open>re.IGNORECASE\<close>, under which
  the ranges \<open>A-Z\<close> and \<open>a-z\<close> of a \<open>str\<close> pattern also match U+0130, U+0131, U+017F and
  U+212A.  In the text below the link is followed at once by a Turkish word that starts
  with U+0131 (dotless i); the returned link ends in that letter, which is outside the
  strict ASCII character set.
\<close>

theorem extract_zoom_links_absorbs_letter:
  "extract_zoom_links ucd_sample text_link = [link_found]
   \<and> 305 \<in> set link_found
   \<and> \<not> is_url_char 305"
proof -
  have n: "normalize_for_links text_link = text_link"
    by (simp add: input_defs ext_defs)
  have f: "re_findall ucd_sample True URL_RE text_link = [link_found]"
    by (simp add: input_defs ext_defs sample_defs re_defs)
  have "extract_zoom_links ucd_sample text_link = [link_found]"
    unfolding extract_zoom_links_def Let_def n f
    by (simp add: sample_defs)
  then show ?thesis
    by (simp add: is_url_char_def link_found_def)
qed

text \<open>
  The exclusion that the pattern is written for holds: Cyrillic letters that follow a link
  at once are not part of the returned link.
\<close>

lemma extract_zoom_links_stops_at_cyrillic:
  "extract_zoom_links ucd_sample (ascii ''https://zoom.us/j/1'' @ [1110, 1076])
     = [ascii ''https://zoom.us/j/1'']"
proof -
  have n: "normalize_for_links (ascii ''https://zoom.us/j/1'' @ [1110, 1076])
      = ascii ''https://zoom.us/j/1'' @ [1110, 1076]"
    by (simp add: ext_defs ascii_def)
  have f: "re_findall ucd_sample True URL_RE (ascii ''https://zoom.us/j/1'' @ [1110, 1076])
      = [ascii ''https://zoom.us/j/1'']"
    by (simp add: ext_defs sample_defs re_defs)
  show ?thesis
    unfolding extract_zoom_links_def Let_def n f
    by (simp add: sample_defs)
qed

section \<open>Properties of teacher detection\<close>






section \<open>Properties of place classification\<close>

text \<open>
  Claim C9, as amended.  With the lowercased combined text: an online hint together with
  a room-number pattern gives the combined label, which is neither the online-only
  label nor a room-only label; an online hint alone gives the online-only label; without
  a hint a room-number pattern gives the room-only label; otherwise a location that is
  not empty after trimming is shown trimmed after the location marker, and a location
  that is empty after trimming gives the placeholder.
\<close>

theorem classify_place_priority:
  assumes "blob = place_blob U loc descr" and "room = re_search U True ROOM_RE blob"
  shows
   "(online_hint blob \<and> room = Some m \<longrightarrow>
       classify_place U loc descr = place_online_room @ room_text m
       \<and> classify_place U loc descr \<noteq> place_online
       \<and> \<not> startswith (classify_place U loc descr) place_room)
    \<and> (online_hint blob \<and> room = None \<longrightarrow> classify_place U loc descr = place_online)
    \<and> (\<not> online_hint blob \<and> room = Some m \<longrightarrow>
       classify_place U loc descr = place_room @ room_text m)
    \<and> (\<not> online_hint blob \<and> room = None \<and> strip loc \<noteq> [] \<longrightarrow>
       classify_place U loc descr = place_location @ strip loc)
    \<and> (\<not> online_hint blob \<and> room = None \<and> strip loc = [] \<longrightarrow>
       classify_place U loc descr = place_none)"
proof -
  have d: "place_online_room @ x \<noteq> place_online" "\<not> startswith (place_online_room @ x) place_room"
    for x
    by (simp_all add: place_online_room_def place_online_def place_room_def)
  show ?thesis
    using assms d
    by (auto simp: classify_place_def place_blob_def online_hint_def room_text_def Let_def)
qed

text \<open>
  The amended claim at a location and a description that hold an online hint and a room
  number, with the sample tables.
\<close>

theorem classify_place_priority_witness:
  "online_hint (place_blob ucd_sample loc_room descr_room)
   \<and> re_search ucd_sample True ROOM_RE (place_blob ucd_sample loc_room descr_room)
       = Some (15, 23, Some room_found)
   \<and> classify_place ucd_sample loc_room descr_room = place_online_room @ room_shown"
proof -
  have b: "place_blob ucd_sample loc_room descr_room = blob_room"
    by (simp add: input_defs place_blob_def sample_defs)
  have h: "online_hint blob_room"
    by (simp add: input_defs online_hint_def ascii_def)
  have r: "re_search ucd_sample True ROOM_RE blob_room = Some (15, 23, Some room_found)"
    by (simp add: input_defs ext_defs sample_defs str_defs re_defs)
  have t: "room_text (15, 23, Some room_found) = room_shown"
    by (simp add: input_defs room_text_def room_abbr_def room_abbr_dot_def replace_def group1_def
        str_defs)
  have "classify_place ucd_sample loc_room descr_room = place_online_room @ room_shown"
    using classify_place_priority[OF refl refl, of ucd_sample loc_room descr_room "(15, 23, Some room_found)"]
    by (simp add: b h r t)
  then show ?thesis
    by (simp add: b h r)
qed

text \<open>
  Claim C9 as stated fails for a location that is not empty but holds only whitespace:
  the result is the placeholder, not the location after the marker.
\<close>

theorem classify_place_blank_location:
  "[32] \<noteq> ([] :: pystr)
   \<and> classify_place ucd_sample [32] [] = place_none
   \<and> place_none \<noteq> place_location @ [32]"
proof -
  have b: "str_lower ucd_sample ([32] @ [10] @ []) = [32, 10]"
    by (simp add: sample_defs)
  have r: "re_search ucd_sample True ROOM_RE [32, 10] = None"
    by (simp add: input_defs ext_defs sample_defs str_defs re_defs)
  have "classify_place ucd_sample [32] [] = place_none"
    unfolding classify_place_def Let_def b r
    by (simp add: ascii_def str_defs)
  then show ?thesis
    by (simp add: place_none_def place_location_def)
qed

section \<open>Properties of the week message\<close>

















text \<open>
  The stanza of the end-to-end scenario of the specification, evaluated with the sample
  library: the times, the discipline, the session type, the teacher, the online-only
  place, the link line and the copy of the link, the access code, and the empty line.
\<close>

lemma event_lines_scenario:
  "event_lines ucd_sample dt_sample event_sample =
     [[128338, 32, 60, 98, 62, 48, 57, 58, 48, 48, 8211, 49, 48, 58, 51, 48, 60, 47, 98,
       62],
      [128218, 32, 60, 98, 62, 1052, 1072, 1090, 1077, 1084, 1072, 1090, 1080, 1082, 1072,
       60, 47, 98, 62],
      [127891, 32, 1051, 1077, 1082, 1094, 1110, 1103],
      [128105, 8205, 127979, 32, 1030, 1074, 1072, 1085, 1086, 1074, 32, 1030, 46, 1030,
       46],
      [127760, 32, 79, 110, 108, 105, 110, 101, 32, 40, 90, 111, 111, 109, 41],
      [128279, 32, 60, 97, 32, 104, 114, 101, 102, 61, 34, 104, 116, 116, 112, 115, 58,
       47, 47, 122, 111, 111, 109, 46, 117, 115, 47, 106, 47, 49, 50, 51, 34, 62,
       1042, 1110, 1076, 1082, 1088, 1080, 1090, 1080, 32, 90, 111, 111, 109, 60,
       47, 97, 62],
      [128206, 32, 60, 99, 111, 100, 101, 62, 104, 116, 116, 112, 115, 58, 47, 47, 122,
       111, 111, 109, 46, 117, 115, 47, 106, 47, 49, 50, 51, 60, 47, 99, 111, 100,
       101, 62],
      [128273, 32, 1050, 1086, 1076, 32, 1076, 1086, 1089, 1090, 1091, 1087, 1091, 58, 32,
       60, 98, 62, 65, 66, 49, 50, 60, 47, 98, 62],
      []]"
proof -
  have s: "split_summary ucd_sample title_lecture = (disc_lecture, Some label_lecture)"
    by (simp add: input_defs ext_defs sample_defs str_defs)
  have t: "extract_teacher ucd_sample descr_scenario = Some teacher_scenario"
    by (simp add: input_defs ext_defs sample_defs str_defs re_defs)
  have p: "extract_passcode ucd_sample descr_scenario = Some (ascii ''AB12'')"
    by (simp add: input_defs ext_defs sample_defs str_defs re_defs)
  have c: "classify_place ucd_sample [] descr_scenario = place_online"
    by (simp add: input_defs ext_defs sample_defs str_defs re_defs)
  have n: "normalize_for_links (descr_scenario @ [10] @ []) = descr_scenario @ [10]"
    by (simp add: input_defs ext_defs)
  have f: "re_findall ucd_sample True URL_RE (descr_scenario @ [10]) = [ascii ''https://zoom.us/j/123'']"
    by (simp add: input_defs ext_defs sample_defs re_defs)
  have l: "extract_zoom_links ucd_sample (descr_scenario @ [10] @ []) = [ascii ''https://zoom.us/j/123'']"
    unfolding extract_zoom_links_def Let_def n f by (simp add: sample_defs)
  have h: "hhmm dt_sample 1709535600 = ascii ''09:00''" "hhmm dt_sample 1709541000 = ascii ''10:30''"
    by (simp_all add: msg_defs dt_sample_simps ascii_def)
  show ?thesis
    unfolding event_lines_def event_sample_def Event.simps s t p c l h Let_def
    by (simp add: msg_defs input_defs ext_defs ascii_def)
qed

end
